theory Spec2Isabelle
  imports Complex_Main "HOL-Library.Sublist"
begin

section \<open>Python values used by the script\<close>

text \<open>
  A Python \<open>str\<close> is a sequence of Unicode code points, so a text is a list of code points.
  ASCII stretches of a literal are written with \<open>lit\<close>; every other character of the source
  literal is given by its code point (\<open>0xE0\<close> for a-grave, \<open>0x2713\<close> for the check mark).
\<close>

type_synonym str = "nat list"

definition lit :: "string \<Rightarrow> str" where
  "lit s = map of_char s"

text \<open>\<open>str(n)\<close> and \<open>%d\<close> for an integer: the decimal digits, with a minus sign below zero.\<close>

function digits :: "nat \<Rightarrow> str" where
  "digits n = (if n < 10 then [48 + n] else digits (n div 10) @ [48 + n mod 10])"
  by pat_completeness auto
termination
  by (relation "measure id") auto

declare digits.simps [simp del]

definition str_of_int :: "int \<Rightarrow> str" where
  "str_of_int i = (if i < 0 then 45 # digits (nat (- i)) else digits (nat i))"

datatype exn = IndexError | ValueError | KeyError str | UnicodeEncodeError | OSError str
  | LibraryError str

text \<open>\<open>xs[i]\<close> on a Python list: negative indices count from the end, anything else out of
  range raises \<open>IndexError\<close>.\<close>

definition getitem :: "'a list \<Rightarrow> int \<Rightarrow> exn + 'a" where
  "getitem xs i =
     (if 0 \<le> i \<and> i < int (length xs) then Inr (xs ! nat i)
      else if - int (length xs) \<le> i \<and> i < 0 then Inr (xs ! nat (int (length xs) + i))
      else Inl IndexError)"

text \<open>\<open>enumerate(xs, start)\<close>.\<close>

fun enumerate_from :: "int \<Rightarrow> 'a list \<Rightarrow> (int \<times> 'a) list" where
  "enumerate_from n [] = []"
| "enumerate_from n (x # xs) = (n, x) # enumerate_from (n + 1) xs"

text \<open>Lengths of the document library are integers in English Metric Units:
  914400 to the inch, 12700 to the point; \<open>int(...)\<close> truncates towards zero.\<close>

definition truncate :: "rat \<Rightarrow> int" where
  "truncate x = (if 0 \<le> x then \<lfloor>x\<rfloor> else \<lceil>x\<rceil>)"

definition Inches :: "rat \<Rightarrow> int" where
  "Inches x = truncate (x * 914400)"

definition Pt :: "rat \<Rightarrow> int" where
  "Pt x = truncate (x * 12700)"

datatype RGBColor = RGBColor int int int

datatype WD_ALIGN_PARAGRAPH = LEFT | CENTER | RIGHT | JUSTIFY

section \<open>The document object\<close>

text \<open>
  The document library keeps a document as an ordered body of block-level elements, paragraphs
  and tables. A paragraph holds runs of text with their character formatting; a table holds rows
  of cells, and a cell holds paragraphs. Formatting that was never assigned is \<open>None\<close>.
\<close>

record run =
  r_text :: str
  r_bold :: "bool option"
  r_italic :: "bool option"
  r_size :: "int option"
  r_color :: "RGBColor option"

record para =
  p_style :: "str option"
  p_runs :: "run list"
  p_alignment :: "WD_ALIGN_PARAGRAPH option"
  p_left_indent :: "int option"

type_synonym cell = "para list"

record table =
  t_style :: "str option"
  t_rows :: "cell list list"

datatype block = Paragraph para | Table table

text \<open>
  The script holds references to the objects it has created and assigns to their attributes.
  A reference is the position of the object: a block by its index in the body, a paragraph in
  the body or inside a table cell, a run inside a paragraph.
\<close>

datatype para_ref = BodyPara nat | CellPara nat nat nat nat

datatype run_ref = RunRef para_ref nat

datatype row_ref = RowRef nat nat

datatype cell_ref = CellRef nat nat nat

text \<open>
  The history records, in program order, every call that appends a block to the body and every
  later call that changes a block already in the body, by the index of that block. Nothing
  reads it; it is kept so that properties of the order of effects can be stated.
\<close>

datatype event = Appended nat | Modified nat

section \<open>The process and its environment\<close>

text \<open>
  The state of the process: what has been written to standard output, the working directory,
  the file system (a file written by the document library holds a document body), the one
  \<open>Document\<close> object of the script (its body, the style names of its template, its
  history), the number of clock readings so far, and every exception raised so far, each with
  the standard output as it was at that moment.
\<close>

record world =
  stdout :: str
  cwd :: str
  files :: "str \<rightharpoonup> block list"
  body :: "block list"
  styles :: "str list"
  history :: "event list"
  clock_reads :: nat
  raised :: "(exn \<times> str) list"

record datetime =
  dt_year :: nat
  dt_month :: nat
  dt_day :: nat
  dt_hour :: nat
  dt_minute :: nat

text \<open>
  What the script cannot control: the clock (the value of the n-th call of
  \<open>datetime.now()\<close>), the rendering of a format by \<open>strftime\<close> (month names depend on the
  locale), the template that \<open>Document()\<close> loads (its style names, or the failure to load
  it), whether standard output accepts a text (its encoding may lack a character, the stream
  may be closed), and whether the file system accepts a write to a path.
\<close>

record env =
  now :: "nat \<Rightarrow> datetime"
  strftime :: "datetime \<Rightarrow> str \<Rightarrow> str"
  template :: "exn + str list"
  stdout_error :: "str \<Rightarrow> exn option"
  write_error :: "str \<Rightarrow> exn option"

text \<open>
  A statement runs in a world and either returns a value or raises; the effects it had before
  raising stay.
\<close>

type_synonym 'a action = "world \<Rightarrow> (exn + 'a) \<times> world"

definition pure :: "'a \<Rightarrow> 'a action" where
  "pure x w = (Inr x, w)"

definition throw :: "exn \<Rightarrow> 'a action" where
  "throw x w = (Inl x, w\<lparr>raised := raised w @ [(x, stdout w)]\<rparr>)"

definition and_then :: "'a action \<Rightarrow> ('a \<Rightarrow> 'b action) \<Rightarrow> 'b action" where
  "and_then m f w = (case m w of (Inl e, w') \<Rightarrow> (Inl e, w') | (Inr x, w') \<Rightarrow> f x w')"

definition from_result :: "exn + 'a \<Rightarrow> 'a action" where
  "from_result r = (case r of Inl x \<Rightarrow> throw x | Inr v \<Rightarrow> pure v)"

text \<open>An expression statement: the value of the call is dropped.\<close>

definition discard :: "'a action \<Rightarrow> unit action" where
  "discard m = and_then m (\<lambda>_. pure ())"

text \<open>A block of statements, run in order; a \<open>for\<close> loop over a list.\<close>

fun seq :: "unit action list \<Rightarrow> unit action" where
  "seq [] = pure ()"
| "seq (m # ms) = and_then m (\<lambda>_. seq ms)"

fun for_each :: "'a list \<Rightarrow> ('a \<Rightarrow> unit action) \<Rightarrow> unit action" where
  "for_each [] f = pure ()"
| "for_each (x # xs) f = and_then (f x) (\<lambda>_. for_each xs f)"

section \<open>The operations of the document library that the script calls\<close>

text \<open>
  The library stores text as XML and refuses a text with a character that XML 1.0 does not
  allow (a NUL or another control character, a surrogate) with \<open>ValueError\<close>; tab, newline
  and carriage return are allowed.
\<close>

definition xml_char :: "nat \<Rightarrow> bool" where
  "xml_char c \<longleftrightarrow>
     c = 9 \<or> c = 10 \<or> c = 13 \<or> (32 \<le> c \<and> c \<le> 0xD7FF) \<or> (0xE000 \<le> c \<and> c \<le> 0xFFFD)
     \<or> (0x10000 \<le> c \<and> c \<le> 0x10FFFF)"

definition xml_compatible :: "str \<Rightarrow> bool" where
  "xml_compatible t = list_all xml_char t"

definition append_block :: "block \<Rightarrow> nat action" where
  "append_block b w =
     (Inr (length (body w)),
      w\<lparr>body := body w @ [b], history := history w @ [Appended (length (body w))]\<rparr>)"

definition update_block :: "nat \<Rightarrow> (block \<Rightarrow> block) \<Rightarrow> unit action" where
  "update_block i f w =
     (Inr (), w\<lparr>body := (body w)[i := f (body w ! i)], history := history w @ [Modified i]\<rparr>)"

definition map_at :: "nat \<Rightarrow> ('a \<Rightarrow> 'a) \<Rightarrow> 'a list \<Rightarrow> 'a list" where
  "map_at i f xs = xs[i := f (xs ! i)]"

fun on_paragraph :: "(para \<Rightarrow> para) \<Rightarrow> block \<Rightarrow> block" where
  "on_paragraph f (Paragraph p) = Paragraph (f p)"
| "on_paragraph f (Table t) = Table t"

fun on_table :: "(table \<Rightarrow> table) \<Rightarrow> block \<Rightarrow> block" where
  "on_table f (Table t) = Table (f t)"
| "on_table f (Paragraph p) = Paragraph p"

fun rows_of :: "block list \<Rightarrow> nat \<Rightarrow> cell list list" where
  "rows_of bs t = (if t < length bs then (case bs ! t of Table tb \<Rightarrow> t_rows tb | Paragraph p \<Rightarrow> []) else [])"

fun cell_of :: "block list \<Rightarrow> cell_ref \<Rightarrow> cell" where
  "cell_of bs (CellRef t r c) =
     (if r < length (rows_of bs t) \<and> c < length (rows_of bs t ! r) then rows_of bs t ! r ! c else [])"

fun runs_of :: "block list \<Rightarrow> para_ref \<Rightarrow> run list" where
  "runs_of bs (BodyPara i) =
     (if i < length bs then (case bs ! i of Paragraph p \<Rightarrow> p_runs p | Table tb \<Rightarrow> []) else [])"
| "runs_of bs (CellPara t r c k) =
     (if k < length (cell_of bs (CellRef t r c)) then p_runs (cell_of bs (CellRef t r c) ! k) else [])"

definition new_run :: "str \<Rightarrow> run" where
  "new_run text = \<lparr>r_text = text, r_bold = None, r_italic = None, r_size = None, r_color = None\<rparr>"

definition new_paragraph :: "str \<Rightarrow> str option \<Rightarrow> para" where
  "new_paragraph text style =
     \<lparr>p_style = style, p_runs = (if text = [] then [] else [new_run text]),
      p_alignment = None, p_left_indent = None\<rparr>"

text \<open>\<open>Document()\<close>: a new document with an empty body and the styles of the template, unless
  the template cannot be loaded.\<close>

definition Document :: "env \<Rightarrow> unit action" where
  "Document e w =
     (case template e of
        Inl x \<Rightarrow> throw x w
      | Inr names \<Rightarrow> (Inr (), w\<lparr>body := [], styles := names, history := []\<rparr>))"

text \<open>
  \<open>doc.add_paragraph(text='', style=None)\<close> appends an empty paragraph, then gives it a run
  when the text is not empty (\<open>ValueError\<close> for a text that XML does not allow), then looks
  the style up by name (\<open>KeyError\<close> for a name that the template does not have). A failure
  leaves what was done before it.
\<close>

definition add_paragraph :: "str \<Rightarrow> str option \<Rightarrow> para_ref action" where
  "add_paragraph text style w =
     (let i = length (body w);
          w1 = w\<lparr>body := body w @ [Paragraph (new_paragraph [] None)],
                 history := history w @ [Appended i]\<rparr>;
          w2 = w1\<lparr>body := body w @ [Paragraph (new_paragraph text None)]\<rparr>;
          w3 = w1\<lparr>body := body w @ [Paragraph (new_paragraph text style)]\<rparr>
      in if text \<noteq> [] \<and> \<not> xml_compatible text then throw ValueError w1
         else (case style of
                 None \<Rightarrow> (Inr (BodyPara i), w2)
               | Some s \<Rightarrow> if s \<in> set (styles w) then (Inr (BodyPara i), w3)
                           else throw (KeyError s) w2))"

text \<open>\<open>doc.add_heading(text, level)\<close>: a paragraph of style \<open>Title\<close> for level 0 and
  \<open>Heading n\<close> for level n up to 9; any other level raises \<open>ValueError\<close>.\<close>

definition add_heading :: "str \<Rightarrow> int \<Rightarrow> para_ref action" where
  "add_heading text level =
     (if \<not> (0 \<le> level \<and> level \<le> 9) then throw ValueError
      else add_paragraph text
             (Some (if level = 0 then lit ''Title'' else lit ''Heading '' @ str_of_int level)))"

fun update_paragraph :: "para_ref \<Rightarrow> (para \<Rightarrow> para) \<Rightarrow> unit action" where
  "update_paragraph (BodyPara i) f = update_block i (on_paragraph f)"
| "update_paragraph (CellPara t r c k) f =
     update_block t (on_table (\<lambda>tb. tb\<lparr>t_rows := map_at r (map_at c (map_at k f)) (t_rows tb)\<rparr>))"

fun update_run :: "run_ref \<Rightarrow> (run \<Rightarrow> run) \<Rightarrow> unit action" where
  "update_run (RunRef p k) f = update_paragraph p (\<lambda>q. q\<lparr>p_runs := map_at k f (p_runs q)\<rparr>)"

text \<open>\<open>paragraph.add_run(text)\<close> appends a run, sets its text when the text is not empty
  (\<open>ValueError\<close> as above, with the empty run left in the paragraph) and returns the run.\<close>

definition add_run :: "para_ref \<Rightarrow> str \<Rightarrow> run_ref action" where
  "add_run p text w =
     (if text \<noteq> [] \<and> \<not> xml_compatible text
      then and_then (update_paragraph p (\<lambda>q. q\<lparr>p_runs := p_runs q @ [new_run []]\<rparr>))
             (\<lambda>_. throw ValueError) w
      else and_then (update_paragraph p (\<lambda>q. q\<lparr>p_runs := p_runs q @ [new_run text]\<rparr>))
             (\<lambda>_. pure (RunRef p (length (runs_of (body w) p)))) w)"

text \<open>\<open>paragraph.runs\<close>: the runs of the paragraph, as references.\<close>

definition paragraph_runs :: "para_ref \<Rightarrow> run_ref list action" where
  "paragraph_runs p w = (Inr (map (RunRef p) [0..<length (runs_of (body w) p)]), w)"

definition set_alignment :: "para_ref \<Rightarrow> WD_ALIGN_PARAGRAPH \<Rightarrow> unit action" where
  "set_alignment p a = update_paragraph p (\<lambda>q. q\<lparr>p_alignment := Some a\<rparr>)"

definition set_left_indent :: "para_ref \<Rightarrow> int \<Rightarrow> unit action" where
  "set_left_indent p n = update_paragraph p (\<lambda>q. q\<lparr>p_left_indent := Some n\<rparr>)"

text \<open>\<open>run.bold\<close> and \<open>run.font.bold\<close> are the same property of the run.\<close>

definition set_bold :: "run_ref \<Rightarrow> bool \<Rightarrow> unit action" where
  "set_bold r b = update_run r (\<lambda>x. x\<lparr>r_bold := Some b\<rparr>)"

definition set_italic :: "run_ref \<Rightarrow> bool \<Rightarrow> unit action" where
  "set_italic r b = update_run r (\<lambda>x. x\<lparr>r_italic := Some b\<rparr>)"

definition set_font_size :: "run_ref \<Rightarrow> int \<Rightarrow> unit action" where
  "set_font_size r n = update_run r (\<lambda>x. x\<lparr>r_size := Some n\<rparr>)"

definition set_font_color_rgb :: "run_ref \<Rightarrow> RGBColor \<Rightarrow> unit action" where
  "set_font_color_rgb r c = update_run r (\<lambda>x. x\<lparr>r_color := Some c\<rparr>)"

text \<open>\<open>doc.add_table(rows, cols)\<close>: every cell of the new table holds one empty paragraph.\<close>

definition add_table :: "nat \<Rightarrow> nat \<Rightarrow> nat action" where
  "add_table rows cols =
     append_block (Table \<lparr>t_style = None,
                          t_rows = replicate rows (replicate cols [new_paragraph [] None])\<rparr>)"

text \<open>\<open>table.style = name\<close> looks the style up by name, as for a paragraph.\<close>

definition set_table_style :: "nat \<Rightarrow> str \<Rightarrow> unit action" where
  "set_table_style t name w =
     (if name \<in> set (styles w)
      then update_block t (on_table (\<lambda>tb. tb\<lparr>t_style := Some name\<rparr>)) w
      else throw (KeyError name) w)"

text \<open>\<open>table.rows\<close>, \<open>row.cells\<close> and \<open>cell.paragraphs\<close>, as lists of references.\<close>

definition table_rows :: "nat \<Rightarrow> row_ref list action" where
  "table_rows t w = (Inr (map (RowRef t) [0..<length (rows_of (body w) t)]), w)"

fun row_cells :: "row_ref \<Rightarrow> cell_ref list action" where
  "row_cells (RowRef t r) w =
     (Inr (map (CellRef t r)
             [0..<(if r < length (rows_of (body w) t) then length (rows_of (body w) t ! r) else 0)]), w)"

definition cell_paragraphs :: "cell_ref \<Rightarrow> para_ref list action" where
  "cell_paragraphs c w =
     (Inr (case c of CellRef t r k \<Rightarrow> map (CellPara t r k) [0..<length (cell_of (body w) c)]), w)"

text \<open>\<open>cell.text = s\<close> replaces the content of the cell by one paragraph with one run and
  sets the text of the run (\<open>ValueError\<close> as above, with the empty run left in the cell).\<close>

fun set_cell_text :: "cell_ref \<Rightarrow> str \<Rightarrow> unit action" where
  "set_cell_text (CellRef t r c) text =
     (if xml_compatible text
      then update_block t (on_table (\<lambda>tb. tb\<lparr>t_rows :=
             map_at r (map_at c (\<lambda>_. [(new_paragraph [] None)\<lparr>p_runs := [new_run text]\<rparr>]))
               (t_rows tb)\<rparr>))
      else and_then (update_block t (on_table (\<lambda>tb. tb\<lparr>t_rows :=
             map_at r (map_at c (\<lambda>_. [(new_paragraph [] None)\<lparr>p_runs := [new_run []]\<rparr>]))
               (t_rows tb)\<rparr>)))
             (\<lambda>_. throw ValueError))"

text \<open>\<open>datetime.now()\<close> reads the clock.\<close>

definition datetime_now :: "env \<Rightarrow> datetime action" where
  "datetime_now e w = (Inr (now e (clock_reads w)), w\<lparr>clock_reads := clock_reads w + 1\<rparr>)"

text \<open>\<open>print(s)\<close> writes the text and a newline to standard output, unless standard output
  refuses the text.\<close>

definition print :: "env \<Rightarrow> str \<Rightarrow> unit action" where
  "print e s w =
     (case stdout_error e (s @ [10]) of
        Some x \<Rightarrow> throw x w
      | None \<Rightarrow> (Inr (), w\<lparr>stdout := stdout w @ s @ [10]\<rparr>))"

text \<open>A relative file name is resolved against the working directory.\<close>

definition resolve :: "str \<Rightarrow> str \<Rightarrow> str" where
  "resolve dir name =
     (if name \<noteq> [] \<and> hd name = 47 then name
      else if dir \<noteq> [] \<and> last dir = 47 then dir @ name
      else dir @ [47] @ name)"

text \<open>\<open>doc.save(path)\<close> creates or replaces the file at the path with the document, unless
  the file system refuses.\<close>

definition save :: "env \<Rightarrow> str \<Rightarrow> unit action" where
  "save e path w =
     (case write_error e (resolve (cwd w) path) of
        Some x \<Rightarrow> throw x w
      | None \<Rightarrow> (Inr (), w\<lparr>files := (files w)(resolve (cwd w) path \<mapsto> body w)\<rparr>))"

section \<open>The script\<close>

text \<open>
  The functions of \<open>generate_rag_improvement_doc.py\<close>, statement by statement. The script has
  one \<open>Document\<close> object, the one in the world, so its parameter \<open>doc\<close> is not passed around.
  A local variable is bound over the statements that use it.
\<close>

definition add_heading_with_style :: "str \<Rightarrow> int \<Rightarrow> para_ref action" where
  "add_heading_with_style text level =
     and_then (add_heading text level) (\<lambda>heading.
     and_then (paragraph_runs heading) (\<lambda>runs.
     and_then (from_result (getitem runs 0)) (\<lambda>run0.
     and_then (set_font_color_rgb run0 (RGBColor 0 51 102)) (\<lambda>_.
     pure heading))))"

definition add_phase :: "int \<Rightarrow> str \<Rightarrow> str \<Rightarrow> str list \<Rightarrow> unit action" where
  "add_phase phase_number title description activities = seq [
     discard (add_heading_with_style
                (lit ''Fase '' @ str_of_int phase_number @ lit '': '' @ title) 2),
     and_then (add_paragraph [] None) (\<lambda>desc_para. seq [
       and_then (add_run desc_para (lit ''Descrizione: '')) (\<lambda>r. set_bold r True),
       discard (add_run desc_para description)]),
     discard (add_paragraph (lit ''Attivit'' @ [0xE0] @ lit '' principali:'') (Some (lit ''Heading 3''))),
     for_each activities (\<lambda>activity.
       and_then (add_paragraph activity (Some (lit ''List Bullet''))) (\<lambda>p.
       set_left_indent p (Inches 0.5))),
     discard (add_paragraph [] None)]"

definition add_metrics_section :: "str list \<Rightarrow> unit action" where
  "add_metrics_section metrics = seq [
     discard (add_paragraph (lit ''Metriche di successo:'') (Some (lit ''Heading 3''))),
     for_each metrics (\<lambda>metric.
       and_then (add_paragraph metric (Some (lit ''List Bullet''))) (\<lambda>p.
       set_left_indent p (Inches 0.5))),
     discard (add_paragraph [] None)]"

definition create_rag_improvement_document :: "env \<Rightarrow> unit action" where
  "create_rag_improvement_document e =
     and_then (Document e) (\<lambda>doc.
     and_then (seq [
     and_then (add_heading (lit ''Piano di Miglioramento RAG Documentale'') 0) (\<lambda>title.
       set_alignment title CENTER),
     and_then (add_paragraph [] None) (\<lambda>subtitle. seq [
       set_alignment subtitle CENTER,
       and_then (datetime_now e) (\<lambda>t.
       and_then (add_run subtitle (lit ''Sistema DocN - '' @ strftime e t (lit ''%B %Y''))) (\<lambda>run. seq [
         set_italic run True,
         set_font_size run (Pt 12)]))]),
     discard (add_paragraph [] None),
     discard (add_heading_with_style ([0x1F4CB] @ lit '' Sommario Esecutivo'') 1),
     (let summary_text =
       lit ''Questo documento delinea un approccio strutturato in fasi per migliorare progressivamente '' @
         lit ''il sistema RAG (Retrieval-Augmented Generation) documentale. L'obiettivo '' @
         [0xE8] @
         lit '' ottimizzare la qualit'' @
         [0xE0] @
         lit '' delle risposte, ridurre le allucinazioni, migliorare la rilevanza dei risultati e '' @
         lit ''garantire un'esperienza utente eccellente.''
      in discard (add_paragraph summary_text None)),
     discard (add_paragraph [] None),
     discard (add_heading_with_style ([0x1F50D] @ lit '' Analisi dello Stato Attuale'') 1),
     (let current_features =
       [lit ''Embedding vettoriali per ricerca semantica'',
        lit ''Sistema di caching per ottimizzazione prestazioni'',
        lit ''Query analysis con HyDE e query rewriting'',
        lit ''Reranking con considerazione di diversit'' @ [0xE0] @ lit '' (MMR)'',
        lit ''Metriche di qualit'' @ [0xE0] @ lit '' RAG con RAGAS'',
        lit ''Rilevamento di allucinazioni'',
        lit ''Verifica delle citazioni'',
        lit ''Configurazione modulare per ogni fase RAG'']
      in seq [
       discard (add_paragraph (lit ''Il sistema attuale include:'') (Some (lit ''Heading 3''))),
       for_each current_features (\<lambda>feature.
         discard (add_paragraph ([0x2713] @ lit '' '' @ feature) (Some (lit ''List Bullet''))))]),
     discard (add_paragraph [] None),
     discard (add_heading_with_style ([0x1F3AF] @ lit '' Fasi di Miglioramento'') 1),
     add_phase 1
       (lit ''Ottimizzazione degli Embeddings'')
       (lit ''Migliorare la qualit'' @
         [0xE0] @
         lit '' della rappresentazione vettoriale dei documenti per una ricerca semantica pi'' @
         [0xF9] @
         lit '' accurata.'')
       [lit ''Valutare modelli di embedding alternativi (es. Multilingual-E5, BGE-M3)'',
        lit ''Implementare fine-tuning del modello di embedding su documenti specifici del dominio'',
        lit ''Ottimizzare il chunking dei documenti (dimensione, overlap, strategie smart)'',
        lit ''Implementare chunking semantico basato su struttura del documento'',
        lit ''Aggiungere metadati ricchi per ogni chunk (titolo, sezione, keywords)'',
        lit ''Validare miglioramenti con metriche di retrieval (MRR, NDCG)''],
     add_metrics_section
       [lit ''Mean Reciprocal Rank (MRR) > 0.85'',
        lit ''Normalized Discounted Cumulative Gain (NDCG) > 0.80'',
        lit ''Riduzione del 30% dei casi di recupero non rilevante''],
     add_phase 2
       (lit ''Miglioramento della Ricerca Ibrida'')
       (lit ''Combinare efficacemente ricerca vettoriale e ricerca testuale per massimizzare la '' @
         lit ''rilevanza.'')
       [lit ''Implementare ricerca ibrida con BM25 + Vector Search'',
        lit ''Ottimizzare il peso relativo tra ricerca semantica e keyword-based'',
        lit ''Aggiungere filtri avanzati (data, tipo documento, autore)'',
        lit ''Implementare ricerca multi-hop per query complesse'',
        lit ''Abilitare query expansion con sinonimi e termini correlati'',
        lit ''Implementare cache semantica per query simili''],
     add_metrics_section
       [lit ''Precision@5 > 0.90'',
        lit ''Recall@10 > 0.85'',
        lit ''Tempo medio di risposta < 1.5 secondi''],
     add_phase 3
       (lit ''Reranking Avanzato'')
       (lit ''Riordinare i risultati recuperati utilizzando modelli pi'' @
         [0xF9] @
         lit '' sofisticati per massimizzare la rilevanza.'')
       [lit ''Integrare modelli di reranking specializzati (es. Cohere Rerank, bge-reranker)'',
        lit ''Implementare reranking cross-encoder per precisione maggiore'',
        lit ''Aggiungere pesi temporali per privilegiare documenti recenti'',
        lit ''Ottimizzare il parametro MMR Lambda per bilanciamento rilevanza/diversit'' @ [0xE0],
        lit ''Implementare contextual reranking basato su conversazione'',
        lit ''A/B testing di diverse strategie di reranking''],
     add_metrics_section
       [lit ''Miglioramento del 25% nella rilevanza percepita dagli utenti'',
        lit ''Riduzione del 40% dei click su risultati non rilevanti'',
        lit ''Aumento del 30% del tempo di permanenza sulle risposte''],
     add_phase 4
       (lit ''Generazione e Sintesi Avanzata'')
       (lit ''Migliorare la qualit'' @
         [0xE0] @
         lit '' della generazione della risposta finale utilizzando tecniche avanzate di prompt '' @
         lit ''engineering e LLM.'')
       [lit ''Ottimizzare i prompt di sistema per risposte pi'' @
          [0xF9] @
          lit '' accurate e contestuali'',
        lit ''Implementare chain-of-thought reasoning per query complesse'',
        lit ''Abilitare compressione contestuale per gestire pi'' @ [0xF9] @ lit '' informazioni'',
        lit ''Implementare self-consistency checking (multiple generations + voting)'',
        lit ''Aggiungere fact-checking automatico delle risposte generate'',
        lit ''Implementare refinement iterativo per risposte di alta qualit'' @ [0xE0],
        lit ''Gestire meglio le citazioni con link diretti ai documenti fonte''],
     add_metrics_section
       [lit ''Faithfulness score (RAGAS) > 0.90'',
        lit ''Answer relevancy score (RAGAS) > 0.85'',
        lit ''Riduzione del 50% delle allucinazioni rilevate''],
     add_phase 5
       (lit ''Monitoraggio e Quality Assurance'')
       (lit ''Implementare un sistema robusto di monitoraggio continuo e miglioramento della qualit'' @
         [0xE0] @
         lit ''.'')
       [lit ''Dashboard real-time per metriche RAG (latency, relevance, quality)'',
        lit ''Sistema di logging completo per analisi post-mortem'',
        lit ''Implementare human-in-the-loop feedback per miglioramento continuo'',
        lit ''A/B testing framework per confrontare miglioramenti'',
        lit ''Alert automatici per degradazione della qualit'' @ [0xE0],
        lit ''Raccolta e analisi di query fallite per training futuro'',
        lit ''Implementare regression testing per prevenire degradazioni''],
     add_metrics_section
       [lit ''Copertura di monitoring su 100% delle query'',
        lit ''Tempo medio di detection dei problemi < 5 minuti'',
        lit ''Feedback degli utenti raccolto su almeno il 10% delle query''],
     add_phase 6
       (lit ''Ottimizzazione Prestazioni e Scalabilit'' @ [0xE0])
       (lit ''Garantire che il sistema RAG possa gestire un carico crescente mantenendo performance '' @
         lit ''eccellenti.'')
       [lit ''Implementare caching multi-livello (query, embeddings, risultati)'',
        lit ''Ottimizzare le query al database vettoriale (batch processing, indexing)'',
        lit ''Implementare pre-computation degli embeddings per documenti statici'',
        lit ''Configurare auto-scaling basato sul carico'',
        lit ''Ottimizzare l'utilizzo della memoria e delle risorse GPU/CPU'',
        lit ''Implementare rate limiting e throttling intelligente'',
        lit ''Load testing e stress testing del sistema''],
     add_metrics_section
       [lit ''Throughput > 100 query/secondo'',
        lit ''P95 latency < 2 secondi'',
        lit ''Utilizzo risorse ottimale (CPU < 70%, memoria < 80%)''],
     add_phase 7
       (lit ''Personalizzazione e Context Awareness'')
       (lit ''Rendere il sistema pi'' @
         [0xF9] @
         lit '' intelligente adattandolo al contesto e alle preferenze dell'utente.'')
       [lit ''Implementare user profiling per personalizzare i risultati'',
        lit ''Context tracking per conversazioni multi-turn pi'' @ [0xF9] @ lit '' coerenti'',
        lit ''Apprendimento dalle interazioni utente (implicit feedback)'',
        lit ''Personalizzazione del linguaggio e del tono delle risposte'',
        lit ''Supporto multi-lingua con modelli specifici per lingua'',
        lit ''Memorizzazione delle preferenze dell'utente'',
        lit ''Raccomandazioni proattive basate su query precedenti''],
     add_metrics_section
       [lit ''Aumento del 40% della soddisfazione utente'',
        lit ''Riduzione del 30% delle query di follow-up'',
        lit ''Aumento del 25% del tasso di utilizzo ripetuto''],
     discard (add_heading_with_style ([0x1F4C5] @ lit '' Timeline di Implementazione Suggerita'') 1),
     and_then (add_table 8 3) (\<lambda>timeline_table. seq [
       set_table_style timeline_table (lit ''Light Grid Accent 1''),
       and_then (table_rows timeline_table) (\<lambda>rows.
       and_then (from_result (getitem rows 0)) (\<lambda>row0.
       and_then (row_cells row0) (\<lambda>header_cells. seq [
         and_then (from_result (getitem header_cells 0)) (\<lambda>c. set_cell_text c (lit ''Fase'')),
         and_then (from_result (getitem header_cells 1)) (\<lambda>c. set_cell_text c (lit ''Durata Stimata'')),
         and_then (from_result (getitem header_cells 2)) (\<lambda>c. set_cell_text c (lit ''Priorit'' @ [0xE0])),
         for_each header_cells (\<lambda>cell.
           and_then (cell_paragraphs cell) (\<lambda>paragraphs.
           for_each paragraphs (\<lambda>paragraph.
             and_then (paragraph_runs paragraph) (\<lambda>runs.
             for_each runs (\<lambda>run. set_bold run True)))))]))),
       (let phases_data =
       [(lit ''Fase 1: Ottimizzazione Embeddings'', lit ''2-3 settimane'', lit ''Alta''),
        (lit ''Fase 2: Ricerca Ibrida'', lit ''3-4 settimane'', lit ''Alta''),
        (lit ''Fase 3: Reranking Avanzato'', lit ''2-3 settimane'', lit ''Media''),
        (lit ''Fase 4: Generazione Avanzata'', lit ''3-4 settimane'', lit ''Alta''),
        (lit ''Fase 5: Monitoraggio e QA'', lit ''2-3 settimane'', lit ''Alta''),
        (lit ''Fase 6: Prestazioni e Scalabilit'' @ [0xE0], lit ''2-3 settimane'', lit ''Media''),
        (lit ''Fase 7: Personalizzazione'', lit ''4-5 settimane'', lit ''Bassa'')]
        in for_each (enumerate_from 1 phases_data) (\<lambda>(i, (phase, duration, priority)).
          and_then (table_rows timeline_table) (\<lambda>rows.
          and_then (from_result (getitem rows i)) (\<lambda>row.
          and_then (row_cells row) (\<lambda>row_cells. seq [
            and_then (from_result (getitem row_cells 0)) (\<lambda>c. set_cell_text c phase),
            and_then (from_result (getitem row_cells 1)) (\<lambda>c. set_cell_text c duration),
            and_then (from_result (getitem row_cells 2)) (\<lambda>c. set_cell_text c priority)])))))]),
     discard (add_paragraph [] None),
     discard (add_heading_with_style ([0x1F4A1] @ lit '' Best Practices Generali'') 1),
     (let best_practices =
       [lit ''Implementare ogni fase in modo incrementale con A/B testing'',
        lit ''Validare ogni miglioramento con metriche oggettive prima di procedere'',
        lit ''Mantenere sempre una versione stabile in produzione (rollback ready)'',
        lit ''Documentare tutte le modifiche e i risultati dei test'',
        lit ''Coinvolgere gli utenti finali per feedback qualitativo'',
        lit ''Automatizzare il testing per prevenire regressioni'',
        lit ''Monitorare costantemente costi e performance'',
        lit ''Rivedere periodicamente le priorit'' @ [0xE0] @ lit '' in base ai risultati'']
      in for_each best_practices (\<lambda>practice.
        and_then (add_paragraph ([0x2022] @ lit '' '' @ practice) None) (\<lambda>p.
        set_left_indent p (Inches 0.25)))),
     discard (add_paragraph [] None),
     discard (add_heading_with_style ([0x1F6E0, 0xFE0F] @ lit '' Strumenti e Tecnologie Consigliate'') 1),
     discard (add_paragraph (lit ''Embedding Models:'') (Some (lit ''Heading 3''))),
     (let embedding_tools =
       [lit ''Multilingual-E5-large (per documenti multilingua)'',
        lit ''BGE-M3 (per supporto multilingua robusto)'',
        lit ''OpenAI text-embedding-3-large (per qualit'' @ [0xE0] @ lit '' superiore)'']
      in for_each embedding_tools (\<lambda>tool.
        discard (add_paragraph tool (Some (lit ''List Bullet''))))),
     discard (add_paragraph (lit ''Reranking:'') (Some (lit ''Heading 3''))),
     (let reranking_tools =
       [lit ''Cohere Rerank API'',
        lit ''bge-reranker-large'',
        lit ''Cross-encoders (sentence-transformers)'']
      in for_each reranking_tools (\<lambda>tool.
        discard (add_paragraph tool (Some (lit ''List Bullet''))))),
     discard (add_paragraph (lit ''Vector Databases:'') (Some (lit ''Heading 3''))),
     (let vector_db_tools =
       [lit ''Qdrant (attuale, ottimizzare configurazione)'',
        lit ''Pinecone (per scalabilit'' @ [0xE0] @ lit '' cloud)'',
        lit ''Weaviate (per ricerca ibrida avanzata)'']
      in for_each vector_db_tools (\<lambda>tool.
        discard (add_paragraph tool (Some (lit ''List Bullet''))))),
     discard (add_paragraph (lit ''Monitoring:'') (Some (lit ''Heading 3''))),
     (let monitoring_tools =
       [lit ''LangSmith (per tracing completo LLM)'',
        lit ''Prometheus + Grafana (per metriche real-time)'',
        lit ''Sentry (per error tracking)'',
        lit ''Custom dashboard con Application Insights'']
      in for_each monitoring_tools (\<lambda>tool.
        discard (add_paragraph tool (Some (lit ''List Bullet''))))),
     discard (add_paragraph [] None),
     discard (add_heading_with_style ([0x1F393] @ lit '' Conclusioni'') 1),
     (let conclusion_text =
       lit ''Il miglioramento di un sistema RAG documentale '' @
         [0xE8] @
         lit '' un processo iterativo che richiede attenzione continua e validazione empirica. Le fasi '' @
         lit ''proposte in questo documento forniscono una roadmap strutturata per evolvere '' @
         lit ''progressivamente il sistema, bilanciando qualit'' @
         [0xE0] @
         lit '' delle risposte, performance, e esperienza utente.'' @
         [10, 10, 0xC8] @
         lit '' fondamentale procedere in modo incrementale, validando ogni miglioramento con metriche '' @
         lit ''oggettive e feedback degli utenti prima di passare alla fase successiva. Il successo a '' @
         lit ''lungo termine dipender'' @
         [0xE0] @
         lit '' dalla capacit'' @
         [0xE0] @
         lit '' di monitorare costantemente il sistema e adattarsi alle esigenze emergenti degli utenti.''
      in discard (add_paragraph conclusion_text None)),
     discard (add_paragraph [] None),
     and_then (add_paragraph [] None) (\<lambda>footer_para. seq [
       set_alignment footer_para CENTER,
       and_then (datetime_now e) (\<lambda>t.
       and_then (add_run footer_para
         (lit ''Documento generato il '' @ strftime e t (lit ''%d/%m/%Y alle %H:%M'') @ [10] @ lit ''Sistema DocN - Archiviazione Documentale con RAG'')) (\<lambda>footer_run. seq [
         set_italic footer_run True,
         set_font_size footer_run (Pt 9),
         set_font_color_rgb footer_run (RGBColor 128 128 128)]))])
     ]) (\<lambda>_. pure doc))"

definition main :: "env \<Rightarrow> unit action" where
  "main e = seq [
     print e (lit ''Generazione del documento di miglioramento RAG...''),
     and_then (create_rag_improvement_document e) (\<lambda>doc.
       let output_filename = lit ''PIANO_MIGLIORAMENTO_RAG.docx'' in seq [
         save e output_filename,
         print e ([0x2713] @ lit '' Documento creato con successo: '' @ output_filename),
         print e (lit ''  Il documento contiene 7 fasi dettagliate per migliorare il sistema RAG'')])]"

section \<open>A concrete environment\<close>

text \<open>
  For runs on concrete inputs: \<open>strftime\<close> in the C locale for the directives the script
  uses, a clock, and a process that starts in a directory with nothing printed yet.
\<close>

definition month_name :: "nat \<Rightarrow> str" where
  "month_name m =
     (if m = 1 then lit ''January'' else if m = 2 then lit ''February''
      else if m = 3 then lit ''March'' else if m = 4 then lit ''April''
      else if m = 5 then lit ''May'' else if m = 6 then lit ''June''
      else if m = 7 then lit ''July'' else if m = 8 then lit ''August''
      else if m = 9 then lit ''September'' else if m = 10 then lit ''October''
      else if m = 11 then lit ''November'' else lit ''December'')"

definition two_digits :: "nat \<Rightarrow> str" where
  "two_digits n = (if n < 10 then 48 # digits n else digits n)"

definition directive :: "datetime \<Rightarrow> nat \<Rightarrow> str" where
  "directive t d =
     (if d = 66 then month_name (dt_month t)
      else if d = 89 then digits (dt_year t)
      else if d = 100 then two_digits (dt_day t)
      else if d = 109 then two_digits (dt_month t)
      else if d = 72 then two_digits (dt_hour t)
      else if d = 77 then two_digits (dt_minute t)
      else [37, d])"

fun strftime_C :: "datetime \<Rightarrow> str \<Rightarrow> str" where
  "strftime_C t [] = []"
| "strftime_C t [c] = [c]"
| "strftime_C t (c # d # cs) =
     (if c = 37 then directive t d @ strftime_C t cs else c # strftime_C t (d # cs))"

definition sample_clock :: "nat \<Rightarrow> datetime" where
  "sample_clock k = \<lparr>dt_year = 2026, dt_month = 11, dt_day = 4, dt_hour = 9, dt_minute = 30 + k\<rparr>"

definition default_styles :: "str list" where
  "default_styles =
     [lit ''Normal'', lit ''Title'', lit ''Heading 1'', lit ''Heading 2'', lit ''Heading 3'',
      lit ''List Bullet'', lit ''Light Grid Accent 1'']"

definition sample_env :: env where
  "sample_env = \<lparr>now = sample_clock, strftime = strftime_C, template = Inr default_styles,
                  stdout_error = (\<lambda>s. None), write_error = (\<lambda>p. None)\<rparr>"

definition later_env :: env where
  "later_env = sample_env\<lparr>now := (\<lambda>k. \<lparr>dt_year = 2027, dt_month = 1, dt_day = 15,
                                         dt_hour = 18, dt_minute = 5 + k\<rparr>)\<rparr>"

definition no_template_env :: env where
  "no_template_env = sample_env\<lparr>template := Inl (LibraryError (lit ''Package not found''))\<rparr>"

definition no_title_env :: env where
  "no_title_env = sample_env\<lparr>template := Inr [lit ''Normal'']\<rparr>"

definition no_bullet_env :: env where
  "no_bullet_env = sample_env\<lparr>template := Inr [lit ''Normal'', lit ''Title'', lit ''Heading 1'',
                                                lit ''Heading 2'', lit ''Heading 3'']\<rparr>"

definition ascii_stdout_env :: env where
  "ascii_stdout_env =
     sample_env\<lparr>stdout_error := (\<lambda>s. if list_all (\<lambda>c. c < 128) s then None
                                       else Some UnicodeEncodeError)\<rparr>"

definition read_only_env :: env where
  "read_only_env = sample_env\<lparr>write_error := (\<lambda>p. Some (OSError (lit ''Permission denied'')))\<rparr>"

definition initial_world :: "str \<Rightarrow> (str \<rightharpoonup> block list) \<Rightarrow> world" where
  "initial_world dir fs =
     \<lparr>stdout = [], cwd = dir, files = fs, body = [], styles = [], history = [],
      clock_reads = 0, raised = []\<rparr>"

definition sample_world :: world where
  "sample_world = initial_world (lit ''/home/user'') Map.empty"

section \<open>Properties of statements\<close>

text \<open>
  A statement has no handler when, started with nothing raised so far, it either returns with
  nothing raised, or fails with the one exception that was raised, with standard output as it
  was when the exception was raised. A statement that caught an exception and went on, raised
  another one in its place, tried the call again, or printed a message of its own before
  failing would not satisfy this.
\<close>

definition unhandled :: "'a action \<Rightarrow> bool" where
  "unhandled m \<longleftrightarrow>
     (\<forall>w. raised w = [] \<longrightarrow>
        (case m w of
           (Inr v, w') \<Rightarrow> raised w' = []
         | (Inl x, w') \<Rightarrow> raised w' = [(x, stdout w')]))"







section \<open>Texts and running a statement\<close>

lemma lit_inject [simp]: "(lit a = lit b) = (a = b)"
  by (simp add: lit_def inj_map_eq_map [OF inj_of_char])

lemma lit_nonempty [simp]: "(lit s = []) = (s = [])"
  by (simp add: lit_def)

lemma lit_append: "lit a @ lit b = lit (a @ b)"
  by (simp add: lit_def)

lemma lit_frozen: "lit s = lit s"
  by (rule refl)

lemma xml_compatible_Nil [simp]: "xml_compatible []"
  by (simp add: xml_compatible_def)

lemma xml_compatible_Cons [simp]: "xml_compatible (c # t) = (xml_char c \<and> xml_compatible t)"
  by (simp add: xml_compatible_def)

lemma xml_compatible_append [simp]:
  "xml_compatible (a @ b) = (xml_compatible a \<and> xml_compatible b)"
  by (simp add: xml_compatible_def)

lemma xml_compatible_lit_Nil [simp]: "xml_compatible (lit [])"
  by (simp add: lit_def)

lemma xml_compatible_lit_Cons [simp]:
  "b5 \<or> b6 \<or> b7 \<Longrightarrow>
   xml_compatible (lit (Char b0 b1 b2 b3 b4 b5 b6 b7 # s)) = xml_compatible (lit s)"
proof -
  assume high: "b5 \<or> b6 \<or> b7"
  let ?c = "Char b0 b1 b2 b3 b4 b5 b6 b7"
  from high have "32 \<le> (of_char ?c :: nat)"
    by (cases b5; cases b6; cases b7) simp_all
  moreover have "of_char ?c < (256 :: nat)"
    by (rule nat_of_char_less_256)
  ultimately have "xml_char (of_char ?c)"
    unfolding xml_char_def by linarith
  then show ?thesis
    by (simp add: lit_def)
qed

lemma and_then_raises: "m w = (Inl x, w') \<Longrightarrow> and_then m f w = (Inl x, w')"
  by (simp add: and_then_def)

lemma and_then_returns: "m w = (Inr v, w') \<Longrightarrow> and_then m f w = f v w'"
  by (simp add: and_then_def)

lemma seq_raises: "m w = (Inl x, w') \<Longrightarrow> seq (m # ms) w = (Inl x, w')"
  by (simp add: and_then_def)

lemma seq_returns: "m w = (Inr (), w') \<Longrightarrow> seq (m # ms) w = seq ms w'"
  by (simp add: and_then_def)

section \<open>Failures pass through the script unchanged\<close>

lemma unhandled_pure: "unhandled (pure v)"
  by (simp add: unhandled_def pure_def)

lemma unhandled_throw: "unhandled (throw x)"
  by (simp add: unhandled_def throw_def)

lemma unhandled_Inl:
  "unhandled m \<Longrightarrow> raised w = [] \<Longrightarrow> m w = (Inl x, w') \<Longrightarrow> raised w' = [(x, stdout w')]"
  unfolding unhandled_def by (drule spec [of _ w]) simp

lemma unhandled_Inr:
  "unhandled m \<Longrightarrow> raised w = [] \<Longrightarrow> m w = (Inr v, w') \<Longrightarrow> raised w' = []"
  unfolding unhandled_def by (drule spec [of _ w]) simp

lemma unhandledI:
  assumes "\<And>w x w'. raised w = [] \<Longrightarrow> m w = (Inl x, w') \<Longrightarrow> raised w' = [(x, stdout w')]"
    and "\<And>w v w'. raised w = [] \<Longrightarrow> m w = (Inr v, w') \<Longrightarrow> raised w' = []"
  shows "unhandled m"
  unfolding unhandled_def
proof (intro allI impI)
  fix w :: world
  assume clean: "raised w = []"
  obtain r w' where mw: "m w = (r, w')" by (cases "m w")
  show "case m w of (Inl x, w') \<Rightarrow> raised w' = [(x, stdout w')] | (Inr v, w') \<Rightarrow> raised w' = []"
  proof (cases r)
    case (Inl x)
    with assms(1) [OF clean] mw show ?thesis by simp
  next
    case (Inr v)
    with assms(2) [OF clean] mw show ?thesis by simp
  qed
qed

lemma unhandled_and_then:
  assumes "unhandled m" and "\<And>v. unhandled (f v)"
  shows "unhandled (and_then m f)"
proof (rule unhandledI)
  fix w :: world and x w'
  assume clean: "raised w = []" and run: "and_then m f w = (Inl x, w')"
  obtain r w1 where mw: "m w = (r, w1)" by (cases "m w")
  show "raised w' = [(x, stdout w')]"
  proof (cases r)
    case (Inl y)
    with mw run have "y = x" "w1 = w'" by (simp_all add: and_then_def)
    with unhandled_Inl [OF assms(1) clean] mw Inl show ?thesis by simp
  next
    case (Inr v)
    with mw have "raised w1 = []" using unhandled_Inr [OF assms(1) clean] by simp
    moreover from Inr mw run have "f v w1 = (Inl x, w')" by (simp add: and_then_def)
    ultimately show ?thesis using unhandled_Inl [OF assms(2)] by blast
  qed
next
  fix w :: world and v w'
  assume clean: "raised w = []" and run: "and_then m f w = (Inr v, w')"
  obtain r w1 where mw: "m w = (r, w1)" by (cases "m w")
  show "raised w' = []"
  proof (cases r)
    case (Inl y)
    with mw run show ?thesis by (simp add: and_then_def)
  next
    case (Inr u)
    with mw have "raised w1 = []" using unhandled_Inr [OF assms(1) clean] by simp
    moreover from Inr mw run have "f u w1 = (Inr v, w')" by (simp add: and_then_def)
    ultimately show ?thesis using unhandled_Inr [OF assms(2)] by blast
  qed
qed

lemma unhandled_discard: "unhandled m \<Longrightarrow> unhandled (discard m)"
  by (simp add: discard_def unhandled_and_then unhandled_pure)

lemma unhandled_seq_Nil: "unhandled (seq [])"
  by (simp add: unhandled_pure)

lemma unhandled_seq_Cons: "unhandled m \<Longrightarrow> unhandled (seq ms) \<Longrightarrow> unhandled (seq (m # ms))"
  by (simp add: unhandled_and_then)

lemma unhandled_for_each: "(\<And>x. unhandled (f x)) \<Longrightarrow> unhandled (for_each xs f)"
  by (induction xs) (simp_all add: unhandled_pure unhandled_and_then)

lemma unhandled_Let: "unhandled (f v) \<Longrightarrow> unhandled (Let v f)"
  by simp

lemma unhandled_case_prod: "(\<And>a b. unhandled (f a b)) \<Longrightarrow> unhandled (case_prod f p)"
  by (cases p) simp

lemma unhandled_from_result: "unhandled (from_result r)"
  by (cases r) (simp_all add: from_result_def unhandled_pure unhandled_throw)

lemma unhandled_update_block: "unhandled (update_block i f)"
  by (simp add: unhandled_def update_block_def)

lemma unhandled_append_block: "unhandled (append_block b)"
  by (simp add: unhandled_def append_block_def)

lemma unhandled_update_paragraph: "unhandled (update_paragraph p f)"
  by (cases p) (simp_all add: unhandled_update_block)

lemma unhandled_update_run: "unhandled (update_run r f)"
  by (cases r) (simp add: unhandled_update_paragraph)

lemma unhandled_Document: "unhandled (Document e)"
  by (simp add: unhandled_def Document_def throw_def split: sum.splits)

lemma unhandled_add_paragraph: "unhandled (add_paragraph t s)"
  by (simp add: unhandled_def add_paragraph_def throw_def Let_def split: option.splits)

lemma unhandled_add_heading: "unhandled (add_heading t l)"
  by (simp add: add_heading_def unhandled_throw unhandled_add_paragraph)

lemma unhandled_add_run: "unhandled (add_run p t)"
proof -
  have bad: "unhandled (and_then (update_paragraph p g) (\<lambda>_. throw ValueError :: run_ref action))"
    for g
    by (rule unhandled_and_then [OF unhandled_update_paragraph unhandled_throw])
  have good: "unhandled (and_then (update_paragraph p g) (\<lambda>_. pure r))"
    for g and r :: run_ref
    by (rule unhandled_and_then [OF unhandled_update_paragraph unhandled_pure])
  show ?thesis
  proof (rule unhandledI)
    fix w :: world and x w'
    assume clean: "raised w = []" and run: "add_run p t w = (Inl x, w')"
    show "raised w' = [(x, stdout w')]"
    proof (cases "t \<noteq> [] \<and> \<not> xml_compatible t")
      case True
      with run show ?thesis
        using unhandled_Inl [OF bad clean] by (simp add: add_run_def)
    next
      case False
      with run show ?thesis
        using unhandled_Inl [OF good clean] by (simp add: add_run_def)
    qed
  next
    fix w :: world and v w'
    assume clean: "raised w = []" and run: "add_run p t w = (Inr v, w')"
    show "raised w' = []"
    proof (cases "t \<noteq> [] \<and> \<not> xml_compatible t")
      case True
      with run show ?thesis
        using unhandled_Inr [OF bad clean] by (simp add: add_run_def)
    next
      case False
      with run show ?thesis
        using unhandled_Inr [OF good clean] by (simp add: add_run_def)
    qed
  qed
qed

lemma unhandled_paragraph_runs: "unhandled (paragraph_runs p)"
  by (simp add: unhandled_def paragraph_runs_def)

lemma unhandled_setters:
  "unhandled (set_alignment p a)" "unhandled (set_left_indent p n)"
  "unhandled (set_bold r b)" "unhandled (set_italic r b)"
  "unhandled (set_font_size r z)" "unhandled (set_font_color_rgb r c)"
  by (simp_all add: set_alignment_def set_left_indent_def set_bold_def set_italic_def
        set_font_size_def set_font_color_rgb_def unhandled_update_paragraph unhandled_update_run)

lemma unhandled_add_table: "unhandled (add_table r c)"
  by (simp add: add_table_def unhandled_append_block)

lemma unhandled_set_table_style: "unhandled (set_table_style t s)"
  by (simp add: unhandled_def set_table_style_def update_block_def throw_def)

lemma unhandled_table_rows: "unhandled (table_rows t)"
  by (simp add: unhandled_def table_rows_def)

lemma unhandled_row_cells: "unhandled (row_cells r)"
  by (cases r) (simp add: unhandled_def)

lemma unhandled_cell_paragraphs: "unhandled (cell_paragraphs c)"
  by (simp add: unhandled_def cell_paragraphs_def)

lemma unhandled_set_cell_text: "unhandled (set_cell_text c t)"
  by (cases c)
    (simp add: unhandled_update_block unhandled_and_then unhandled_throw)

lemma unhandled_datetime_now: "unhandled (datetime_now e)"
  by (simp add: unhandled_def datetime_now_def)

lemma unhandled_print: "unhandled (print e s)"
  by (simp add: unhandled_def print_def throw_def split: option.splits)

lemma unhandled_save: "unhandled (save e p)"
  by (simp add: unhandled_def save_def throw_def split: option.splits)

lemmas unhandled_rules =
  unhandled_pure unhandled_throw unhandled_and_then unhandled_discard unhandled_seq_Nil
  unhandled_seq_Cons unhandled_for_each unhandled_Let unhandled_case_prod unhandled_from_result
  unhandled_Document unhandled_add_paragraph unhandled_add_heading unhandled_add_run
  unhandled_paragraph_runs unhandled_setters unhandled_add_table unhandled_set_table_style
  unhandled_table_rows unhandled_row_cells unhandled_cell_paragraphs unhandled_set_cell_text
  unhandled_datetime_now unhandled_print unhandled_save

lemma unhandled_add_heading_with_style: "unhandled (add_heading_with_style t l)"
  unfolding add_heading_with_style_def by (intro unhandled_rules)

lemma unhandled_add_phase: "unhandled (add_phase k t d acts)"
  unfolding add_phase_def by (intro unhandled_rules unhandled_add_heading_with_style)

lemma unhandled_add_metrics_section: "unhandled (add_metrics_section ms)"
  unfolding add_metrics_section_def by (intro unhandled_rules)

lemma unhandled_create: "unhandled (create_rag_improvement_document e)"
  unfolding create_rag_improvement_document_def
  by (intro unhandled_rules unhandled_add_heading_with_style unhandled_add_phase
        unhandled_add_metrics_section)

lemma unhandled_main: "unhandled (main e)"
  unfolding main_def by (intro unhandled_rules unhandled_create)

lemma create_without_title:
  assumes "template e = Inr names" and "lit ''Title'' \<notin> set names"
  shows "create_rag_improvement_document e w =
     (Inl (KeyError (lit ''Title'')),
      w\<lparr>body := [Paragraph (new_paragraph (lit ''Piano di Miglioramento RAG Documentale'') None)],
        styles := names, history := [Appended 0],
        raised := raised w @ [(KeyError (lit ''Title''), stdout w)]\<rparr>)"
proof -
  let ?w0 = "w\<lparr>body := [], styles := names, history := []\<rparr>"
  have d: "Document e w = (Inr (), ?w0)"
    using assms(1) by (simp add: Document_def)
  have t: "and_then (add_heading (lit ''Piano di Miglioramento RAG Documentale'') 0)
             (\<lambda>title. set_alignment title CENTER) ?w0 =
     (Inl (KeyError (lit ''Title'')),
      w\<lparr>body := [Paragraph (new_paragraph (lit ''Piano di Miglioramento RAG Documentale'') None)],
        styles := names, history := [Appended 0],
        raised := raised w @ [(KeyError (lit ''Title''), stdout w)]\<rparr>)"
    using assms(2) by (simp add: and_then_def add_heading_def add_paragraph_def throw_def Let_def)
  show ?thesis
    unfolding create_rag_improvement_document_def
    apply (subst and_then_returns [where m = "Document e" and w = w, OF d])
    apply (rule and_then_raises)
    apply (rule seq_raises)
    apply (rule t)
    done
qed

text \<open>
  C6. No handler lies on the execution path of \<open>main\<close>. Started with nothing raised, \<open>main\<close>
  either returns and nothing was raised by any call on the way (the document library inside
  \<open>create_rag_improvement_document\<close>, \<open>print\<close>, \<open>save\<close>), or it fails with the one exception
  that was raised: the same exception, raised once, and nothing was printed after it.
\<close>

theorem main_has_no_handler:
  "raised w = [] \<Longrightarrow>
   (case main e w of
      (Inr v, w') \<Rightarrow> raised w' = []
    | (Inl x, w') \<Rightarrow> raised w' = [(x, stdout w')])"
proof -
  assume clean: "raised w = []"
  obtain r w' where run: "main e w = (r, w')"
    by (cases "main e w")
  show ?thesis
  proof (cases r)
    case (Inl x)
    with unhandled_Inl [OF unhandled_main clean] run show ?thesis by simp
  next
    case (Inr v)
    with unhandled_Inr [OF unhandled_main clean] run show ?thesis by simp
  qed
qed

theorem main_has_no_handler_witness:
  "raised sample_world = []
   \<and> fst (main no_title_env sample_world) = Inl (KeyError (lit ''Title''))
   \<and> raised (snd (main no_title_env sample_world)) =
       [(KeyError (lit ''Title''),
         lit ''Generazione del documento di miglioramento RAG...'' @ [10])]"
proof -
  have clean: "raised sample_world = []"
    by (simp add: sample_world_def initial_world_def)
  let ?w1 = "sample_world\<lparr>stdout := lit ''Generazione del documento di miglioramento RAG...'' @ [10]\<rparr>"
  have p: "print no_title_env (lit ''Generazione del documento di miglioramento RAG...'') sample_world
           = (Inr (), ?w1)"
    by (simp add: print_def no_title_env_def sample_env_def sample_world_def initial_world_def)
  have c: "fst (create_rag_improvement_document no_title_env ?w1) = Inl (KeyError (lit ''Title''))"
    "stdout (snd (create_rag_improvement_document no_title_env ?w1)) =
       lit ''Generazione del documento di miglioramento RAG...'' @ [10]"
  proof -
    have tpl: "template no_title_env = Inr [lit ''Normal'']"
      by (simp add: no_title_env_def sample_env_def)
    have nt: "lit ''Title'' \<notin> set [lit ''Normal'']"
      by simp
    note cw = create_without_title [OF tpl nt, of ?w1]
    show "fst (create_rag_improvement_document no_title_env ?w1) = Inl (KeyError (lit ''Title''))"
      by (simp add: cw)
    show "stdout (snd (create_rag_improvement_document no_title_env ?w1)) =
       lit ''Generazione del documento di miglioramento RAG...'' @ [10]"
      by (simp add: cw)
  qed
  obtain r w' where c': "create_rag_improvement_document no_title_env ?w1 = (r, w')"
    by (cases "create_rag_improvement_document no_title_env ?w1")
  with c have r: "r = Inl (KeyError (lit ''Title''))"
    and o: "stdout w' = lit ''Generazione del documento di miglioramento RAG...'' @ [10]"
    by simp_all
  have run: "main no_title_env sample_world = (Inl (KeyError (lit ''Title'')), w')"
    unfolding main_def
    apply (subst seq_returns [where w = sample_world
        and m = "print no_title_env (lit ''Generazione del documento di miglioramento RAG...'')",
        OF p])
    apply (rule seq_raises)
    apply (rule and_then_raises)
    using c' r apply simp
    done
  from main_has_no_handler [OF clean, of no_title_env] run o
  show ?thesis using clean by simp
qed

section \<open>What each statement of the script does\<close>

























section \<open>A run of the document builder\<close>

lemma heading_style [simp]:
  "lit ''Heading '' @ str_of_int 1 = lit ''Heading 1''"
  "lit ''Heading '' @ str_of_int 2 = lit ''Heading 2''"
  by (simp_all add: str_of_int_def digits.simps lit_def)

lemma xml_phase_numbers [simp]:
  "xml_compatible (str_of_int 1)" "xml_compatible (str_of_int 2)" "xml_compatible (str_of_int 3)"
  "xml_compatible (str_of_int 4)" "xml_compatible (str_of_int 5)" "xml_compatible (str_of_int 6)"
  "xml_compatible (str_of_int 7)"
  by (simp_all add: str_of_int_def digits.simps xml_char_def)




section \<open>Order of the blocks\<close>





end
